theory Spec2Isabelle
  imports Complex_Main
begin

section \<open>Python values shared by both pipelines of gist.py\<close>

text \<open>
  Every exception the modelled code can raise is a value. \<open>SystemExit\<close> is what
  \<^verbatim>\<open>sys.exit(1)\<close> raises; \<open>ExternalError\<close> stands for an exception raised inside an
  external collaborator (makeblastdb, pandas reading a missing file).
\<close>

datatype py_error =
    NameError string
  | AttributeError string
  | ValueError string
  | SystemExit int
  | ExternalError string

text \<open>
  The names bound at module level of gist.py: the imports of lines 1-15 and the two
  classes. A name that is neither local to a function, nor in this list, nor a Python
  builtin raises NameError when it is evaluated.
\<close>

definition module_globals :: "string list" where
  "module_globals =
     [''read_get_states_input'', ''read_get_similar_genomes_input'', ''check_dir'',
      ''check_file'', ''sys'', ''click'', ''os'', ''subprocess'', ''pd'',
      ''ThreadPoolExecutor'', ''NcbimakeblastdbCommandline'', ''NcbiblastnCommandline'',
      ''SeqIO'', ''GetSubSamplingByState'', ''GetSimilarGenomes'']"

text \<open>
  The builtins the source itself uses; none of the names looked up below is any other
  builtin of Python either.
\<close>

definition builtins_used :: "string list" where
  "builtins_used = [''print'', ''str'', ''open'', ''Exception'']"

text \<open>
  Evaluating a name inside a function body: \<open>locals\<close> are the local names already bound
  at that point.
\<close>

definition resolve_name :: "string list \<Rightarrow> string \<Rightarrow> py_error + string" where
  "resolve_name locals n =
     (if n \<in> set locals \<or> n \<in> set module_globals \<or> n \<in> set builtins_used
      then Inr n else Inl (NameError n))"

text \<open>\<^verbatim>\<open>os.path.join(a, b)\<close> on POSIX, for two components.\<close>

definition path_join :: "string \<Rightarrow> string \<Rightarrow> string" where
  "path_join a b =
     (if take 1 b = ''/'' then b
      else if a = [] \<or> take 1 (rev a) = ''/'' then a @ b
      else a @ ''/'' @ b)"

text \<open>\<^verbatim>\<open>" ".join(xs)\<close>.\<close>

fun join_sp :: "string list \<Rightarrow> string" where
  "join_sp [] = []"
| "join_sp [x] = x"
| "join_sp (x # y # ys) = x @ '' '' @ join_sp (y # ys)"

text \<open>\<^verbatim>\<open>str(n)\<close> for an integer: its decimal digits.\<close>

fun nat_digits :: "nat \<Rightarrow> string" where
  "nat_digits n =
     (if n < 10 then [''0123456789'' ! n]
      else nat_digits (n div 10) @ [''0123456789'' ! (n mod 10)])"

declare nat_digits.simps [simp del]

definition str_int :: "int \<Rightarrow> string" where
  "str_int i = (if i < 0 then ''-'' @ nat_digits (nat (- i)) else nat_digits (nat i))"

text \<open>
  \<^verbatim>\<open>str(xs)\<close> for a list of strings, as an f-string interpolates it: the items in single
  quotes, separated by a comma and a space, in square brackets.
\<close>

definition quoted :: "string \<Rightarrow> string" where
  "quoted s = [CHR 0x27] @ s @ [CHR 0x27]"

fun join_comma :: "string list \<Rightarrow> string" where
  "join_comma [] = []"
| "join_comma [x] = x"
| "join_comma (x # y # ys) = x @ '', '' @ join_comma (y # ys)"

definition str_list :: "string list \<Rightarrow> string" where
  "str_list xs = ''['' @ join_comma (map quoted xs) @ '']''"

section \<open>The similarity pipeline: class GetSimilarGenomes\<close>

text \<open>One row of the alignment table, with the columns of \<^verbatim>\<open>blast_columns\<close>.\<close>

record blast_hit =
  qseqid :: string
  sseqid :: string
  pident :: real
  evalue :: real
  bitscore :: real
  qcovhsp :: real

text \<open>A sequence record as Bio.SeqIO yields it, and a row of the metadata table.\<close>

record seq_record =
  rec_id :: string
  rec_seq :: string

record metadata_row =
  strain :: string
  other_columns :: "string list"

text \<open>
  Modelled from the spec: the schema object returned by
  \<^verbatim>\<open>gist.util.read_get_similar_genomes_input\<close>, which is not among the sources
  (SimilaritySchema of the data model).
\<close>

record similarity_schema =
  sim_job_name :: string
  min_id :: real
  max_id :: real
  max_number_of_similar_genomes :: nat

text \<open>
  What the pipeline reads from outside: the validators of gist.util (True when the check
  passes, False when it raises), the schema loader (None when it raises), whether
  makeblastdb returns normally, and the contents of the files it parses.
\<close>

record similar_world =
  check_file :: "string \<Rightarrow> bool"
  check_dir :: "string \<Rightarrow> bool"
  read_get_similar_genomes_input :: "string \<Rightarrow> similarity_schema option"
  makeblastdb_ok :: "string \<Rightarrow> bool"
  read_blast_table :: "string \<Rightarrow> blast_hit list option"
  fasta_records :: "string \<Rightarrow> seq_record list"
  metadata_rows :: "string \<Rightarrow> metadata_row list"

text \<open>The files the pipeline has written, oldest first.\<close>

datatype file_content =
    BlastDatabase
  | BlastTable
  | FastaFile "seq_record list"
  | TsvFile "metadata_row list"

type_synonym written_files = "(string \<times> file_content) list"

text \<open>
  The instance attributes set by \<^verbatim>\<open>GetSimilarGenomes.__init__\<close>. Line 271 stores the
  constructor's argument, the path of the schema file, under
  \<^verbatim>\<open>get_similar_genomes_sampling_schema\<close>; the validated schema object is used for
  \<^verbatim>\<open>job_name\<close> only.
\<close>

record similar_genomes_job =
  sg_input_file :: string
  sg_sequences :: string
  sg_metadata :: string
  sg_output_job_dir :: string
  sg_threads :: int
  get_similar_genomes_sampling_schema :: string

text \<open>
  \<^verbatim>\<open>create_blast_database\<close>: makeblastdb writes the database of the sequence file.
\<close>

definition create_blast_database ::
  "similar_world \<Rightarrow> similar_genomes_job \<Rightarrow> written_files \<Rightarrow> (py_error + unit) \<times> written_files" where
  "create_blast_database w self fs =
     (if makeblastdb_ok w (sg_sequences self)
      then (Inr (), fs @ [(sg_sequences self, BlastDatabase)])
      else (Inl (ExternalError ''makeblastdb''), fs))"

text \<open>
  \<^verbatim>\<open>perform_blast\<close> binds \<open>output\<close> and \<open>blast\<close>, then evaluates \<^verbatim>\<open>cline()\<close>; the
  alignment itself would run only inside that call.
\<close>

definition perform_blast ::
  "similar_genomes_job \<Rightarrow> written_files \<Rightarrow> (py_error + unit) \<times> written_files" where
  "perform_blast self fs =
     (let output = path_join (sg_output_job_dir self) ''gisaid_blastn.tsv'' in
      case resolve_name [''self'', ''output'', ''blast''] ''cline'' of
        Inl e \<Rightarrow> (Inl e, fs)
      | Inr callee \<Rightarrow> (Inr (), fs @ [(output, BlastTable)]))"

text \<open>
  \<^verbatim>\<open>filter_blast_results\<close>: the table is read and filtered on \<open>qcovhsp\<close> (line 297).
  The next statement evaluates, left to right, the name \<^verbatim>\<open>dblast_results_dff\<close> and then
  the attribute \<^verbatim>\<open>min_id\<close> of \<^verbatim>\<open>self.get_similar_genomes_sampling_schema\<close>, which is
  the path string stored by line 271. Neither evaluation can succeed, so no statement
  after line 307 is reachable.
\<close>

definition filter_blast_results ::
  "similar_world \<Rightarrow> similar_genomes_job \<Rightarrow> py_error + string list" where
  "filter_blast_results w self =
     (let blast_results = path_join (sg_output_job_dir self) ''gisaid_blastn.tsv'' in
      case read_blast_table w blast_results of
        None \<Rightarrow> Inl (ExternalError ''FileNotFoundError'')
      | Some rows \<Rightarrow>
          (let blast_results_df = filter (\<lambda>h. 999 / 10 \<le> qcovhsp h) rows in
           case resolve_name [''self'', ''blast_results'', ''blast_columns'', ''blast_results_df'']
                  ''dblast_results_dff'' of
             Inl e \<Rightarrow> Inl e
           | Inr d \<Rightarrow> Inl (AttributeError ''min_id'')))"

text \<open>
  The iterator returned by \<^verbatim>\<open>SeqIO.parse(handle, "fasta")\<close> reads its handle lazily.
\<close>

record fasta_iterator =
  handle_closed :: bool
  pending :: "seq_record list"

definition seqio_parse :: "seq_record list \<Rightarrow> fasta_iterator" where
  "seqio_parse recs = \<lparr>handle_closed = False, pending = recs\<rparr>"

text \<open>The body of the loop of lines 330-332, over the records an iterator yields.\<close>

fun select_loop :: "seq_record list \<Rightarrow> string list \<Rightarrow> seq_record list \<Rightarrow> seq_record list" where
  "select_loop [] matches selected_records = selected_records"
| "select_loop (r # rs) matches selected_records =
     (if rec_id r \<in> set matches
      then select_loop rs matches (selected_records @ [r])
      else select_loop rs matches selected_records)"

text \<open>Iterating: the first read of a closed handle raises ValueError.\<close>

definition iterate_records :: "fasta_iterator \<Rightarrow> string list \<Rightarrow> py_error + seq_record list" where
  "iterate_records records matches =
     (if handle_closed records then Inl (ValueError ''I/O operation on closed file.'')
      else Inr (select_loop (pending records) matches []))"

text \<open>
  Lines 321-338, the record-selection step, given the list of matches. The
  \<^verbatim>\<open>with\<close> block of lines 327-328 ends before the loop of line 330 starts, so the loop
  iterates over a handle that is already closed.
\<close>

definition select_and_write ::
  "similar_world \<Rightarrow> similar_genomes_job \<Rightarrow> string list \<Rightarrow> written_files
     \<Rightarrow> (py_error + unit) \<times> written_files" where
  "select_and_write w self gisaid_filtered_matches fs =
     (let output_sequences = path_join (sg_output_job_dir self) ''gisaid_similar_genomes.fasta'';
          output_metadata = path_join (sg_output_job_dir self) ''gisaid_similar_genomes.tsv'';
          records = (seqio_parse (fasta_records w (sg_sequences self)))\<lparr>handle_closed := True\<rparr>
      in case iterate_records records gisaid_filtered_matches of
           Inl e \<Rightarrow> (Inl e, fs)
         | Inr selected_records \<Rightarrow>
             (let fs1 = fs @ [(output_sequences, FastaFile selected_records)];
                  metadata_df = metadata_rows w (sg_metadata self);
                  selected_df = filter (\<lambda>row. strain row \<in> set gisaid_filtered_matches) metadata_df
              in (Inr (), fs1 @ [(output_metadata, TsvFile selected_df)])))"

text \<open>
  \<^verbatim>\<open>get_gisaid_filtered_genomes\<close> (lines 317-338): an exception ends the method.
\<close>

definition get_gisaid_filtered_genomes ::
  "similar_world \<Rightarrow> similar_genomes_job \<Rightarrow> written_files \<Rightarrow> (py_error + unit) \<times> written_files" where
  "get_gisaid_filtered_genomes w self fs =
     (case create_blast_database w self fs of
        (Inl e, fs1) \<Rightarrow> (Inl e, fs1)
      | (Inr u, fs1) \<Rightarrow>
          (case perform_blast self fs1 of
             (Inl e, fs2) \<Rightarrow> (Inl e, fs2)
           | (Inr u', fs2) \<Rightarrow>
               (case filter_blast_results w self of
                  Inl e \<Rightarrow> (Inl e, fs2)
                | Inr gisaid_filtered_matches \<Rightarrow>
                    select_and_write w self gisaid_filtered_matches fs2)))"

text \<open>
  \<^verbatim>\<open>GetSimilarGenomes.__init__\<close>: both \<^verbatim>\<open>try\<close> blocks end in \<^verbatim>\<open>sys.exit(1)\<close>; the
  pipeline runs from the constructor's last line.
\<close>

definition GetSimilarGenomes_init ::
  "similar_world \<Rightarrow> string \<Rightarrow> string \<Rightarrow> string \<Rightarrow> string \<Rightarrow> int \<Rightarrow> string \<Rightarrow> written_files
     \<Rightarrow> (py_error + unit) \<times> written_files" where
  "GetSimilarGenomes_init w input_file sequences metadata output_dir threads schema_path fs =
     (if \<not> (list_all (check_file w) [input_file, sequences, metadata, schema_path]
             \<and> check_dir w output_dir)
      then (Inl (SystemExit 1), fs)
      else case read_get_similar_genomes_input w schema_path of
             None \<Rightarrow> (Inl (SystemExit 1), fs)
           | Some valid_subsampling_schema \<Rightarrow>
               get_gisaid_filtered_genomes w
                 \<lparr>sg_input_file = input_file, sg_sequences = sequences, sg_metadata = metadata,
                  sg_output_job_dir = path_join output_dir (sim_job_name valid_subsampling_schema),
                  sg_threads = threads,
                  get_similar_genomes_sampling_schema = schema_path\<rparr> fs)"

section \<open>The subsampling pipeline: class GetSubSamplingByState\<close>

text \<open>
  Modelled from the spec: the schema object returned by
  \<^verbatim>\<open>gist.util.read_get_states_input\<close>, which is not among the sources
  (SubsamplingSchema and Stratum of the data model). The fields are the attributes
  gist.py reads. \<open>countries\<close> is optional: \<open>None\<close> and the empty list are both false
  in the test of line 175.
\<close>

record stratum =
  name :: string
  sigla :: string
  max_genomes :: int

record subsampling_schema =
  job_name :: string
  min_date :: string
  max_date :: string
  min_genome_len :: int
  target_lineages :: "string list"
  outgroup_lineages :: "string list"
  states :: "stratum list"
  countries :: "stratum list option"
  target_states :: "string list"

text \<open>The instance attributes set by \<^verbatim>\<open>GetSubSamplingByState.__init__\<close>.\<close>

record subsampling_job =
  sequences :: string
  metadata :: string
  ncov_dir_scripts :: string
  threads :: int
  output_job_dir :: string
  valid_subsampling_schema :: subsampling_schema

text \<open>
  One \<^verbatim>\<open>augur filter\<close> command line: its options in the order of the f-string, each
  with the text interpolated after it (empty for an option that takes no value). The
  double quotes around a query are the shell's and are not part of the value.
\<close>

type_synonym augur_filter = "(string \<times> string) list"

text \<open>
  \<^verbatim>\<open>subprocess.run(cmd, shell=True)\<close>: the command runs, and its exit status comes
  back in a CompletedProcess that no caller reads (\<open>check\<close> is not set, so a non-zero
  status raises nothing). \<open>sh\<close> is the external engine: the exit status of each
  command. The log is every command run so far with its status, in order of completion.
\<close>

type_synonym proc_log = "(augur_filter \<times> int) list"

definition subprocess_run ::
  "(augur_filter \<Rightarrow> int) \<Rightarrow> augur_filter \<Rightarrow> proc_log \<Rightarrow> int \<times> proc_log" where
  "subprocess_run sh cmd runs = (sh cmd, runs @ [(cmd, sh cmd)])"

text \<open>
  The command line of \<^verbatim>\<open>_filter_state\<close> (lines 88-98).
\<close>

definition filter_by_state_cmd :: "subsampling_job \<Rightarrow> stratum \<Rightarrow> string \<Rightarrow> augur_filter" where
  "filter_by_state_cmd self state output =
     (let schema = valid_subsampling_schema self in
      [(''--metadata'', output_job_dir self @ ''/metadata_gisaid.tsv.gz''),
       (''--sequence-index'', output_job_dir self @ ''/sequence_index_gisaid.tsv.gz''),
       (''--min-date'', min_date schema),
       (''--max-date'', max_date schema),
       (''--min-length'', str_int (min_genome_len schema)),
       (''--query'', ''(country == '' @ quoted ''Brazil'' @ '') & (division == ''
           @ quoted (name state) @ '') & (pango_lineage == ''
           @ str_list (target_lineages schema) @ '') & (host == '' @ quoted ''Human'' @ '') ''),
       (''--subsample-max-sequences'', str_int (max_genomes state)),
       (''--exclude-ambiguous-dates-by'', ''any''),
       (''--group-by'', ''pango_lineage year month''),
       (''--output-strains'', output)])"

text \<open>
  The path \<^verbatim>\<open>_filter_state\<close> binds to \<open>output\<close> (line 87) and returns.
\<close>

definition state_output :: "subsampling_job \<Rightarrow> stratum \<Rightarrow> string" where
  "state_output self state =
     path_join (output_job_dir self) (''state_'' @ sigla state @ ''_sub.txt'')"

text \<open>
  \<^verbatim>\<open>_filter_state\<close>: the command runs, its CompletedProcess is bound to a name that
  is never read, and the path is returned whatever the exit status was.
\<close>

definition filter_state ::
  "(augur_filter \<Rightarrow> int) \<Rightarrow> subsampling_job \<Rightarrow> stratum \<Rightarrow> proc_log \<Rightarrow> string \<times> proc_log" where
  "filter_state sh self state runs =
     (let output = state_output self state;
          (run_filter_by_state_cmd, runs') =
             subprocess_run sh (filter_by_state_cmd self state output) runs
      in (output, runs'))"

text \<open>
  The command line of \<^verbatim>\<open>_filter_country\<close> (lines 106-116).
\<close>

definition filter_by_country_cmd :: "subsampling_job \<Rightarrow> stratum \<Rightarrow> string \<Rightarrow> augur_filter" where
  "filter_by_country_cmd self country output =
     (let schema = valid_subsampling_schema self in
      [(''--metadata'', output_job_dir self @ ''/metadata_gisaid.tsv.gz''),
       (''--sequence-index'', output_job_dir self @ ''/sequence_index_gisaid.tsv.gz''),
       (''--min-date'', min_date schema),
       (''--max-date'', max_date schema),
       (''--min-length'', str_int (min_genome_len schema)),
       (''--query'', ''(country == '' @ quoted (name country) @ '') & (pango_lineage == ''
           @ str_list (target_lineages schema) @ '') & (host == '' @ quoted ''Human'' @ '')''),
       (''--subsample-max-sequences'', str_int (max_genomes country)),
       (''--exclude-ambiguous-dates-by'', ''any''),
       (''--group-by'', ''pango_lineage year month''),
       (''--output-strains'', output)])"

definition country_output :: "subsampling_job \<Rightarrow> stratum \<Rightarrow> string" where
  "country_output self country =
     path_join (output_job_dir self) (''country_'' @ sigla country @ ''_sub.txt'')"

definition filter_country ::
  "(augur_filter \<Rightarrow> int) \<Rightarrow> subsampling_job \<Rightarrow> stratum \<Rightarrow> proc_log \<Rightarrow> string \<times> proc_log" where
  "filter_country sh self country runs =
     (let output = country_output self country;
          (run_filter_by_country_cmd, runs') =
             subprocess_run sh (filter_by_country_cmd self country output) runs
      in (output, runs'))"

text \<open>
  The command line of \<^verbatim>\<open>_filter_outgroup\<close> (lines 124-133): it has no
  \<^verbatim>\<open>--min-date\<close>, and the schema's \<open>min_date\<close> follows \<^verbatim>\<open>--max-date\<close>.
\<close>

definition filter_outgroup_cmd :: "subsampling_job \<Rightarrow> string \<Rightarrow> augur_filter" where
  "filter_outgroup_cmd self output =
     (let schema = valid_subsampling_schema self in
      [(''--metadata'', output_job_dir self @ ''/metadata_gisaid.tsv.gz''),
       (''--sequence-index'', output_job_dir self @ ''/sequence_index_gisaid.tsv.gz''),
       (''--max-date'', min_date schema),
       (''--min-length'', str_int (min_genome_len schema)),
       (''--query'', ''pango_lineage == '' @ str_list (outgroup_lineages schema)
           @ '' & (host == '' @ quoted ''Human'' @ '')''),
       (''--subsample-max-sequences'', ''30''),
       (''--exclude-ambiguous-dates-by'', ''any''),
       (''--group-by'', ''pango_lineage year month''),
       (''--output-strains'', output)])"

definition outgroup_output :: "subsampling_job \<Rightarrow> string" where
  "outgroup_output self = path_join (output_job_dir self) ''outgroup_sub.txt''"

definition filter_outgroup ::
  "(augur_filter \<Rightarrow> int) \<Rightarrow> subsampling_job \<Rightarrow> proc_log \<Rightarrow> string \<times> proc_log" where
  "filter_outgroup sh self runs =
     (let output = outgroup_output self;
          (run_filter_outgroup_cmd, runs') =
             subprocess_run sh (filter_outgroup_cmd self output) runs
      in (output, runs'))"

subsection \<open>The worker pool\<close>

text \<open>
  A batch of \<^verbatim>\<open>ThreadPoolExecutor\<close>: every submitted job runs, in an order that the
  scheduler decides. \<open>sched\<close> lists job indices in the order the scheduler completes
  them; a job it does not mention completes after those, in submission order, since
  leaving the \<^verbatim>\<open>with\<close> block waits for every job.
\<close>

definition completion_order :: "nat list \<Rightarrow> nat \<Rightarrow> nat list" where
  "completion_order sched n =
     remdups (filter (\<lambda>i. i < n) sched) @ filter (\<lambda>i. i \<notin> set sched) [0..<n]"

text \<open>Running the jobs in a given order; each future keeps the value its job returned.\<close>

fun run_jobs ::
  "('a \<Rightarrow> proc_log \<Rightarrow> 'b \<times> proc_log) \<Rightarrow> 'a list \<Rightarrow> nat list \<Rightarrow> (nat \<rightharpoonup> 'b) \<Rightarrow> proc_log
     \<Rightarrow> (nat \<rightharpoonup> 'b) \<times> proc_log" where
  "run_jobs task xs [] futures runs = (futures, runs)"
| "run_jobs task xs (i # order) futures runs =
     (let (r, runs') = task (xs ! i) runs
      in run_jobs task xs order (futures(i \<mapsto> r)) runs')"

text \<open>
  The \<^verbatim>\<open>with ThreadPoolExecutor(max_workers=...)\<close> block followed by the loop over
  \<^verbatim>\<open>job_pool\<close>: the constructor raises ValueError for a pool size below one;
  \<^verbatim>\<open>job.result()\<close> is read in submission order.
\<close>

definition thread_pool ::
  "int \<Rightarrow> nat list \<Rightarrow> ('a \<Rightarrow> proc_log \<Rightarrow> 'b \<times> proc_log) \<Rightarrow> 'a list \<Rightarrow> proc_log
     \<Rightarrow> (py_error + 'b list) \<times> proc_log" where
  "thread_pool max_workers sched task xs runs =
     (if max_workers \<le> 0 then (Inl (ValueError ''max_workers must be greater than 0''), runs)
      else (let (futures, runs') =
                  run_jobs task xs (completion_order sched (length xs)) Map.empty runs
            in (Inr (List.map_filter futures [0..<length xs]), runs')))"

subsection \<open>get_samples and its callers\<close>

text \<open>
  The loop of lines 168-173 over the state jobs, each tagged with its state's sigla:
  a result goes to the target list when the sigla is in \<open>target_states\<close>, to the
  general list otherwise.
\<close>

fun classify_jobs ::
  "string list \<Rightarrow> (string \<times> string) list \<Rightarrow> string list \<Rightarrow> string list
     \<Rightarrow> string list \<times> string list" where
  "classify_jobs targets [] sub_sampling_target_states sub_sampling_files =
     (sub_sampling_target_states, sub_sampling_files)"
| "classify_jobs targets ((state_sigla, subsampled_file) # job_pool)
       sub_sampling_target_states sub_sampling_files =
     (if state_sigla \<in> set targets
      then classify_jobs targets job_pool
             (sub_sampling_target_states @ [subsampled_file]) sub_sampling_files
      else classify_jobs targets job_pool
             sub_sampling_target_states (sub_sampling_files @ [subsampled_file]))"

text \<open>
  The target-only materialisation (lines 192-199) and the combined one (lines 204-211).
\<close>

definition get_samples_target_states_cmd :: "subsampling_job \<Rightarrow> string \<Rightarrow> augur_filter" where
  "get_samples_target_states_cmd self sub_sampling_target_states =
     [(''--metadata'', output_job_dir self @ ''/metadata_gisaid.tsv.gz''),
      (''--sequence-index'', output_job_dir self @ ''/sequence_index_gisaid.tsv.gz''),
      (''--sequences'', output_job_dir self @ ''/sequences_gisaid.fasta.gz''),
      (''--exclude-all'', ''''),
      (''--include'', sub_sampling_target_states),
      (''--output-metadata'',
         output_job_dir self @ ''/subsampled_target_states_metadata_gisaid.tsv''),
      (''--output-sequences'',
         output_job_dir self @ ''/subsampled_target_states_sequences_gisaid.fasta'')]"

definition get_samples_cmd :: "subsampling_job \<Rightarrow> string \<Rightarrow> augur_filter" where
  "get_samples_cmd self sub_sampling_files =
     [(''--metadata'', output_job_dir self @ ''/metadata_gisaid.tsv.gz''),
      (''--sequence-index'', output_job_dir self @ ''/sequence_index_gisaid.tsv.gz''),
      (''--sequences'', output_job_dir self @ ''/sequences_gisaid.fasta.gz''),
      (''--exclude-all'', ''''),
      (''--include'', sub_sampling_files),
      (''--output-metadata'', output_job_dir self @ ''/subsampled_metadata_gisaid.tsv''),
      (''--output-sequences'', output_job_dir self @ ''/subsampled_sequences_gisaid.fasta'')]"

text \<open>
  Lines 175-183: the country batch, skipped when \<open>countries\<close> is false (None or empty).
\<close>

definition country_batch ::
  "(augur_filter \<Rightarrow> int) \<Rightarrow> nat list \<Rightarrow> subsampling_job \<Rightarrow> string list \<Rightarrow> proc_log
     \<Rightarrow> (py_error + string list) \<times> proc_log" where
  "country_batch sh sched self sub_sampling_files runs =
     (case countries (valid_subsampling_schema self) of
        None \<Rightarrow> (Inr sub_sampling_files, runs)
      | Some [] \<Rightarrow> (Inr sub_sampling_files, runs)
      | Some cs \<Rightarrow>
          (case thread_pool (threads self) sched (filter_country sh self) cs runs of
             (Inl e, runs') \<Rightarrow> (Inl e, runs')
           | (Inr outs, runs') \<Rightarrow> (Inr (sub_sampling_files @ outs), runs')))"

text \<open>
  \<^verbatim>\<open>get_samples\<close> (lines 157-217). The two lists are joined with spaces; the target
  list only when \<open>target_states\<close> is not empty. The value returned is the target text,
  a space and the general text, or the general text alone.
\<close>

definition get_samples ::
  "(augur_filter \<Rightarrow> int) \<Rightarrow> nat list \<Rightarrow> nat list \<Rightarrow> subsampling_job \<Rightarrow> proc_log
     \<Rightarrow> (py_error + string) \<times> proc_log" where
  "get_samples sh sched_states sched_countries self runs =
     (let schema = valid_subsampling_schema self in
      case thread_pool (threads self) sched_states (filter_state sh self) (states schema) runs of
        (Inl e, runs1) \<Rightarrow> (Inl e, runs1)
      | (Inr outs, runs1) \<Rightarrow>
          (let (target_list, state_list) =
                 classify_jobs (target_states schema) (zip (map sigla (states schema)) outs) [] []
           in case country_batch sh sched_countries self state_list runs1 of
                (Inl e, runs2) \<Rightarrow> (Inl e, runs2)
              | (Inr file_list, runs2) \<Rightarrow>
                  (let (outgroup, runs3) = filter_outgroup sh self runs2;
                       sub_sampling_target_states = join_sp target_list;
                       sub_sampling_files = join_sp (file_list @ [outgroup]);
                       runs4 = (if target_states schema \<noteq> []
                               then snd (subprocess_run sh
                                      (get_samples_target_states_cmd self sub_sampling_target_states) runs3)
                               else runs3);
                       runs5 = snd (subprocess_run sh (get_samples_cmd self sub_sampling_files) runs4)
                   in (Inr (if target_states schema \<noteq> []
                            then sub_sampling_target_states @ '' '' @ sub_sampling_files
                            else sub_sampling_files), runs5))))"

text \<open>
  \<^verbatim>\<open>_filter_gisaid\<close> (lines 138-155): the value of \<^verbatim>\<open>get_samples\<close> is interpolated
  after \<^verbatim>\<open>--exclude\<close>; the command has no \<^verbatim>\<open>--subsample-max-sequences\<close>.
\<close>

definition filter_gisaid_cmd :: "subsampling_job \<Rightarrow> string \<Rightarrow> string \<Rightarrow> augur_filter" where
  "filter_gisaid_cmd self subsampling_files output =
     (let schema = valid_subsampling_schema self in
      [(''--metadata'', output_job_dir self @ ''/metadata_gisaid.tsv.gz''),
       (''--sequence-index'', output_job_dir self @ ''/sequence_index_gisaid.tsv.gz''),
       (''--min-date'', min_date schema),
       (''--max-date'', max_date schema),
       (''--min-length'', str_int (min_genome_len schema)),
       (''--exclude'', subsampling_files),
       (''--query'', ''(country != '' @ quoted ''Brazil'' @ '') & (pango_lineage == ''
           @ str_list (target_lineages schema) @ '') & (host == '' @ quoted ''Human'' @ '') ''),
       (''--exclude-ambiguous-dates-by'', ''any''),
       (''--output-strains'', output)])"

definition gisaid_output :: "subsampling_job \<Rightarrow> string" where
  "gisaid_output self = path_join (output_job_dir self) ''gisaid_sub.txt''"

definition filter_gisaid ::
  "(augur_filter \<Rightarrow> int) \<Rightarrow> nat list \<Rightarrow> nat list \<Rightarrow> subsampling_job \<Rightarrow> proc_log
     \<Rightarrow> (py_error + string) \<times> proc_log" where
  "filter_gisaid sh sched_states sched_countries self runs =
     (case get_samples sh sched_states sched_countries self runs of
        (Inl e, runs1) \<Rightarrow> (Inl e, runs1)
      | (Inr subsampling_files, runs1) \<Rightarrow>
          (let output = gisaid_output self;
               (run_filter_gisaid_cmd, runs2) =
                  subprocess_run sh (filter_gisaid_cmd self subsampling_files output) runs1
           in (Inr output, runs2)))"

text \<open>
  \<^verbatim>\<open>get_global\<close> (lines 219-231), called last by the constructor.
\<close>

definition get_global_cmd :: "subsampling_job \<Rightarrow> string \<Rightarrow> augur_filter" where
  "get_global_cmd self gisaid_samples =
     [(''--metadata'', output_job_dir self @ ''/metadata_gisaid.tsv.gz''),
      (''--sequence-index'', output_job_dir self @ ''/sequence_index_gisaid.tsv.gz''),
      (''--sequences'', output_job_dir self @ ''/sequences_gisaid.fasta.gz''),
      (''--exclude-all'', ''''),
      (''--include'', gisaid_samples),
      (''--output-metadata'', output_job_dir self @ ''/gisaid_filtered_metadata_gisaid.tsv''),
      (''--output-sequences'', output_job_dir self @ ''/gisaid_filtered_sequences_gisaid.fasta'')]"

definition get_global ::
  "(augur_filter \<Rightarrow> int) \<Rightarrow> nat list \<Rightarrow> nat list \<Rightarrow> subsampling_job \<Rightarrow> proc_log
     \<Rightarrow> (py_error + unit) \<times> proc_log" where
  "get_global sh sched_states sched_countries self runs =
     (case filter_gisaid sh sched_states sched_countries self runs of
        (Inl e, runs1) \<Rightarrow> (Inl e, runs1)
      | (Inr gisaid_samples, runs1) \<Rightarrow>
          (Inr (), snd (subprocess_run sh (get_global_cmd self gisaid_samples) runs1)))"

subsection \<open>Reading a command line\<close>

text \<open>
  The shell splits the unquoted text after \<^verbatim>\<open>--include\<close> or \<^verbatim>\<open>--exclude\<close> into
  words at spaces; each word is one identifier file.
\<close>

fun shell_words_from :: "string \<Rightarrow> string \<Rightarrow> string list" where
  "shell_words_from w [] = (if w = [] then [] else [w])"
| "shell_words_from w (c # cs) =
     (if c = CHR '' ''
      then (if w = [] then [] else [w]) @ shell_words_from [] cs
      else shell_words_from (w @ [c]) cs)"

definition shell_words :: "string \<Rightarrow> string list" where
  "shell_words s = shell_words_from [] s"



text \<open>
  The command lines are unquoted shell text, so a path names one file only when it has
  no space in it: the job directory and every sigla must be free of spaces.
\<close>

definition space_free :: "string \<Rightarrow> bool" where
  "space_free s = (CHR '' '' \<notin> set s)"

text \<open>
  The countries of a schema as a list, empty when the field is absent.
\<close>

definition country_list :: "subsampling_schema \<Rightarrow> stratum list" where
  "country_list schema = (case countries schema of None \<Rightarrow> [] | Some cs \<Rightarrow> cs)"


subsection \<open>The lists get_samples assembles, in closed form\<close>

text \<open>
  The identifier files of the states whose sigla is in \<open>target_states\<close>, and the
  files of all the other strata: the remaining states, the countries and the outgroup.
\<close>

definition target_files :: "subsampling_job \<Rightarrow> string list" where
  "target_files self =
     (let schema = valid_subsampling_schema self in
      map (state_output self)
        (filter (\<lambda>s. sigla s \<in> set (target_states schema)) (states schema)))"

definition background_files :: "subsampling_job \<Rightarrow> string list" where
  "background_files self =
     (let schema = valid_subsampling_schema self in
      map (state_output self)
        (filter (\<lambda>s. sigla s \<notin> set (target_states schema)) (states schema))
      @ map (country_output self) (country_list schema)
      @ [outgroup_output self])"

text \<open>
  The text \<^verbatim>\<open>get_samples\<close> returns when the pool can be built.
\<close>

definition returned_files :: "subsampling_job \<Rightarrow> string" where
  "returned_files self =
     (if target_states (valid_subsampling_schema self) \<noteq> []
      then join_sp (target_files self) @ '' '' @ join_sp (background_files self)
      else join_sp (background_files self))"

text \<open>
  A log entry, and the runs of one call of \<^verbatim>\<open>get_samples\<close>.
\<close>

definition ran :: "(augur_filter \<Rightarrow> int) \<Rightarrow> augur_filter \<Rightarrow> augur_filter \<times> int" where
  "ran sh cmd = (cmd, sh cmd)"

definition state_run :: "(augur_filter \<Rightarrow> int) \<Rightarrow> subsampling_job \<Rightarrow> stratum \<Rightarrow> augur_filter \<times> int" where
  "state_run sh self st = ran sh (filter_by_state_cmd self st (state_output self st))"

definition country_run :: "(augur_filter \<Rightarrow> int) \<Rightarrow> subsampling_job \<Rightarrow> stratum \<Rightarrow> augur_filter \<times> int" where
  "country_run sh self c = ran sh (filter_by_country_cmd self c (country_output self c))"

definition stratum_runs ::
  "(augur_filter \<Rightarrow> int) \<Rightarrow> nat list \<Rightarrow> nat list \<Rightarrow> subsampling_job \<Rightarrow> proc_log" where
  "stratum_runs sh sched_states sched_countries self =
     (let schema = valid_subsampling_schema self in
      map (\<lambda>i. state_run sh self (states schema ! i))
        (completion_order sched_states (length (states schema)))
      @ map (\<lambda>i. country_run sh self (country_list schema ! i))
          (completion_order sched_countries (length (country_list schema)))
      @ [ran sh (filter_outgroup_cmd self (outgroup_output self))])"

definition materialise_runs :: "(augur_filter \<Rightarrow> int) \<Rightarrow> subsampling_job \<Rightarrow> proc_log" where
  "materialise_runs sh self =
     (if target_states (valid_subsampling_schema self) \<noteq> []
      then [ran sh (get_samples_target_states_cmd self (join_sp (target_files self)))] else [])
     @ [ran sh (get_samples_cmd self (join_sp (background_files self)))]"


section \<open>Example inputs\<close>

text \<open>
  A job with three states, of which Sao Paulo is a target, and one country; the same
  job with an empty country list; an engine whose run for Bahia exits with status 2.
\<close>

definition demo_schema :: subsampling_schema where
  "demo_schema = \<lparr>job_name = ''job'', min_date = ''2020-11-01'', max_date = ''2021-06-30'',
     min_genome_len = 29000, target_lineages = [''P.1''], outgroup_lineages = [''B.1''],
     states = [\<lparr>name = ''Sao Paulo'', sigla = ''SP'', max_genomes = 100\<rparr>,
               \<lparr>name = ''Bahia'', sigla = ''BA'', max_genomes = 50\<rparr>,
               \<lparr>name = ''Acre'', sigla = ''AC'', max_genomes = 50\<rparr>],
     countries = Some [\<lparr>name = ''Argentina'', sigla = ''AR'', max_genomes = 20\<rparr>],
     target_states = [''SP'']\<rparr>"

definition demo_job :: subsampling_job where
  "demo_job = \<lparr>sequences = ''s.fasta'', metadata = ''m.tsv'', ncov_dir_scripts = ''ncov/scripts'',
     threads = 2, output_job_dir = ''out/job'', valid_subsampling_schema = demo_schema\<rparr>"

definition demo_no_countries :: subsampling_job where
  "demo_no_countries =
     demo_job\<lparr>valid_subsampling_schema := demo_schema\<lparr>countries := Some []\<rparr>\<rparr>"

definition bahia :: stratum where
  "bahia = \<lparr>name = ''Bahia'', sigla = ''BA'', max_genomes = 50\<rparr>"

definition bahia_fails :: "augur_filter \<Rightarrow> int" where
  "bahia_fails cmd =
     (if map_of cmd ''--output-strains'' = Some ''out/job/state_BA_sub.txt'' then 2 else 0)"



text \<open>
  The alignment hits of the scenario in the specification, an external world that
  returns them, and one that returns a single hit inside every threshold.
\<close>

definition scenario_hits :: "blast_hit list" where
  "scenario_hits =
     [\<lparr>qseqid = ''query'', sseqid = ''A'', pident = 9995 / 100, evalue = 0, bitscore = 500,
       qcovhsp = 100\<rparr>,
      \<lparr>qseqid = ''query'', sseqid = ''A'', pident = 9995 / 100, evalue = 0, bitscore = 300,
       qcovhsp = 100\<rparr>,
      \<lparr>qseqid = ''query'', sseqid = ''B'', pident = 80, evalue = 0, bitscore = 400,
       qcovhsp = 100\<rparr>]"

definition demo_world :: similar_world where
  "demo_world =
     \<lparr>check_file = (\<lambda>p. True), check_dir = (\<lambda>p. True),
      read_get_similar_genomes_input =
        (\<lambda>p. Some \<lparr>sim_job_name = ''similar'', min_id = 95, max_id = 100,
                     max_number_of_similar_genomes = 10\<rparr>),
      makeblastdb_ok = (\<lambda>p. True),
      read_blast_table = (\<lambda>p. Some scenario_hits),
      fasta_records =
        (\<lambda>p. [\<lparr>rec_id = ''A'', rec_seq = ''ACGT''\<rparr>, \<lparr>rec_id = ''C'', rec_seq = ''GGCA''\<rparr>]),
      metadata_rows =
        (\<lambda>p. [\<lparr>strain = ''A'', other_columns = [''2021-01-05'']\<rparr>,
               \<lparr>strain = ''C'', other_columns = [''2021-02-11'']\<rparr>])\<rparr>"

definition one_hit_world :: similar_world where
  "one_hit_world =
     demo_world\<lparr>read_blast_table :=
       (\<lambda>p. Some [\<lparr>qseqid = ''query'', sseqid = ''A'', pident = 99, evalue = 0,
                      bitscore = 500, qcovhsp = 100\<rparr>])\<rparr>"

definition demo_similar_job :: similar_genomes_job where
  "demo_similar_job =
     \<lparr>sg_input_file = ''query.fasta'', sg_sequences = ''gisaid.fasta'',
      sg_metadata = ''gisaid.tsv'', sg_output_job_dir = ''out/similar'', sg_threads = 2,
      get_similar_genomes_sampling_schema = ''similar.json''\<rparr>"

section \<open>Text and paths\<close>




lemma shell_words_from_space:
  "shell_words_from w (CHR '' '' # rest) = (if w = [] then [] else [w]) @ shell_words rest"
  by (simp add: shell_words_def)




















lemma space_free_append [simp]: "space_free (a @ b) \<longleftrightarrow> space_free a \<and> space_free b"
  by (auto simp: space_free_def)











section \<open>The worker pool returns results in submission order\<close>

lemma set_completion_order: "set (completion_order sched n) = {0..<n}"
  by (auto simp: completion_order_def)

lemma distinct_completion_order: "distinct (completion_order sched n)"
  by (auto simp: completion_order_def)

lemma run_jobs_futures:
  assumes "\<And>x l. fst (task x l) = out x"
  shows "fst (run_jobs task xs order futures runs) i =
           (if i \<in> set order then Some (out (xs ! i)) else futures i)"
proof (induction order arbitrary: futures runs)
  case Nil
  show ?case by simp
next
  case (Cons j order)
  obtain r runs' where t: "task (xs ! j) runs = (r, runs')" by (cases "task (xs ! j) runs")
  have r: "r = out (xs ! j)" using assms[of "xs ! j" runs] t by simp
  have step: "run_jobs task xs (j # order) futures runs =
                run_jobs task xs order (futures(j \<mapsto> r)) runs'"
    using t by simp
  have ih: "fst (run_jobs task xs order (futures(j \<mapsto> r)) runs') i =
              (if i \<in> set order then Some (out (xs ! i)) else (futures(j \<mapsto> r)) i)"
    by (rule Cons.IH)
  show ?case
  proof (cases "i \<in> set order")
    case True
    then show ?thesis by (simp only: step ih) simp
  next
    case False
    then show ?thesis by (simp only: step ih) (simp add: r)
  qed
qed

lemma run_jobs_log:
  assumes "\<And>x l. snd (task x l) = l @ [entry x]"
  shows "snd (run_jobs task xs order futures runs) = runs @ map (\<lambda>i. entry (xs ! i)) order"
proof (induction order arbitrary: futures runs)
  case Nil
  show ?case by simp
next
  case (Cons j order)
  obtain r runs' where t: "task (xs ! j) runs = (r, runs')" by (cases "task (xs ! j) runs")
  have r: "runs' = runs @ [entry (xs ! j)]" using assms[of "xs ! j" runs] t by simp
  have step: "run_jobs task xs (j # order) futures runs =
                run_jobs task xs order (futures(j \<mapsto> r)) runs'"
    using t by simp
  have ih: "snd (run_jobs task xs order (futures(j \<mapsto> r)) runs') =
              runs' @ map (\<lambda>i. entry (xs ! i)) order"
    by (rule Cons.IH)
  show ?case unfolding step ih by (simp add: r)
qed

lemma map_filter_all_some:
  "(\<And>i. i \<in> set is \<Longrightarrow> f i = Some (g i)) \<Longrightarrow> List.map_filter f is = map g is"
  by (induction "is") (simp_all add: List.map_filter_simps)

lemma map_nth_out: "map (\<lambda>i. out (xs ! i)) [0..<length xs] = map out xs"
proof -
  have "map (\<lambda>i. out (xs ! i)) [0..<length xs] = map out (map (\<lambda>i. xs ! i) [0..<length xs])"
    by simp
  then show ?thesis by (simp only: map_nth)
qed

lemma thread_pool_result:
  assumes "0 < max_workers"
    and "\<And>x l. fst (task x l) = out x"
    and "\<And>x l. snd (task x l) = l @ [entry x]"
  shows "thread_pool max_workers sched task xs runs =
           (Inr (map out xs),
            runs @ map (\<lambda>i. entry (xs ! i)) (completion_order sched (length xs)))"
proof -
  let ?order = "completion_order sched (length xs)"
  obtain futures runs' where rj: "run_jobs task xs ?order Map.empty runs = (futures, runs')"
    by (cases "run_jobs task xs ?order Map.empty runs")
  have f: "\<And>i. i \<in> set [0..<length xs] \<Longrightarrow> futures i = Some (out (xs ! i))"
    using run_jobs_futures[of task out xs ?order Map.empty runs, OF assms(2)] rj
    by (simp add: set_completion_order)
  have "List.map_filter futures [0..<length xs] = map (\<lambda>i. out (xs ! i)) [0..<length xs]"
    using f by (rule map_filter_all_some)
  also have "\<dots> = map out xs"
    by (rule map_nth_out)
  finally have res: "List.map_filter futures [0..<length xs] = map out xs" .
  have lg: "runs' = runs @ map (\<lambda>i. entry (xs ! i)) ?order"
    using run_jobs_log[of task entry xs ?order Map.empty runs, OF assms(3)] rj by simp
  show ?thesis using assms(1) rj res lg by (simp add: thread_pool_def)
qed


lemma completion_order_0: "completion_order sched 0 = []"
  by (simp add: completion_order_def)

lemma nth_image_completion_order:
  "x \<in> set xs \<Longrightarrow> f x \<in> set (map (\<lambda>i. f (xs ! i)) (completion_order sched (length xs)))"
proof -
  assume "x \<in> set xs"
  then obtain i where i: "i < length xs" "xs ! i = x" by (auto simp: in_set_conv_nth)
  then have "i \<in> set (completion_order sched (length xs))"
    by (simp add: set_completion_order)
  then have "f (xs ! i) \<in> (\<lambda>i. f (xs ! i)) ` set (completion_order sched (length xs))"
    by (rule imageI)
  with i show ?thesis by simp
qed

section \<open>What get_samples returns and runs\<close>

lemma classify_jobs_eq:
  "classify_jobs targets jobs ts fs =
     (ts @ map snd (filter (\<lambda>j. fst j \<in> set targets) jobs),
      fs @ map snd (filter (\<lambda>j. fst j \<notin> set targets) jobs))"
  by (induction jobs arbitrary: ts fs) auto

lemma classify_states:
  "classify_jobs targets (zip (map sigla sts) (map out sts)) [] [] =
     (map out (filter (\<lambda>s. sigla s \<in> set targets) sts),
      map out (filter (\<lambda>s. sigla s \<notin> set targets) sts))"
  by (induction sts) (auto simp: classify_jobs_eq)

lemma filter_state_fst: "fst (filter_state sh self st l) = state_output self st"
  by (simp add: filter_state_def subprocess_run_def Let_def)

lemma filter_state_snd: "snd (filter_state sh self st l) = l @ [state_run sh self st]"
  by (simp add: filter_state_def subprocess_run_def Let_def state_run_def ran_def)

lemma filter_country_fst: "fst (filter_country sh self c l) = country_output self c"
  by (simp add: filter_country_def subprocess_run_def Let_def)

lemma filter_country_snd: "snd (filter_country sh self c l) = l @ [country_run sh self c]"
  by (simp add: filter_country_def subprocess_run_def Let_def country_run_def ran_def)

lemma filter_outgroup_eq:
  "filter_outgroup sh self l =
     (outgroup_output self, l @ [ran sh (filter_outgroup_cmd self (outgroup_output self))])"
  by (simp add: filter_outgroup_def subprocess_run_def Let_def ran_def)

lemma state_batch_eq:
  "0 < threads self \<Longrightarrow>
   thread_pool (threads self) sched (filter_state sh self) sts l =
     (Inr (map (state_output self) sts),
      l @ map (\<lambda>i. state_run sh self (sts ! i)) (completion_order sched (length sts)))"
  by (rule thread_pool_result) (simp_all add: filter_state_fst filter_state_snd)

lemma country_pool_eq:
  "0 < threads self \<Longrightarrow>
   thread_pool (threads self) sched (filter_country sh self) cs l =
     (Inr (map (country_output self) cs),
      l @ map (\<lambda>i. country_run sh self (cs ! i)) (completion_order sched (length cs)))"
  by (rule thread_pool_result) (simp_all add: filter_country_fst filter_country_snd)

lemma country_batch_eq:
  assumes "0 < threads self"
  shows "country_batch sh sched self fs l =
     (Inr (fs @ map (country_output self) (country_list (valid_subsampling_schema self))),
      l @ map (\<lambda>i. country_run sh self (country_list (valid_subsampling_schema self) ! i))
            (completion_order sched (length (country_list (valid_subsampling_schema self)))))"
proof (cases "countries (valid_subsampling_schema self)")
  case None
  then show ?thesis by (simp add: country_batch_def country_list_def completion_order_0)
next
  case (Some cs)
  show ?thesis
  proof (cases cs)
    case Nil
    with Some show ?thesis by (simp add: country_batch_def country_list_def completion_order_0)
  next
    case (Cons c cs')
    have "country_batch sh sched self fs l =
            (case thread_pool (threads self) sched (filter_country sh self) cs l of
               (Inl e, l') \<Rightarrow> (Inl e, l')
             | (Inr outs, l') \<Rightarrow> (Inr (fs @ outs), l'))"
      using Some Cons by (simp add: country_batch_def)
    then show ?thesis
      using Some by (simp add: country_pool_eq[OF assms] country_list_def)
  qed
qed


text \<open>
  With a pool of at least one worker, \<^verbatim>\<open>get_samples\<close> returns the joined lists and
  runs every stratum filter, then the materialisations.
\<close>

lemma get_samples_eq:
  assumes "0 < threads self"
  shows "get_samples sh sched_states sched_countries self l =
     (Inr (returned_files self),
      l @ stratum_runs sh sched_states sched_countries self @ materialise_runs sh self)"
proof -
  let ?schema = "valid_subsampling_schema self"
  have cl: "classify_jobs (target_states ?schema)
              (zip (map sigla (states ?schema)) (map (state_output self) (states ?schema))) [] [] =
            (map (state_output self) (filter (\<lambda>s. sigla s \<in> set (target_states ?schema)) (states ?schema)),
             map (state_output self) (filter (\<lambda>s. sigla s \<notin> set (target_states ?schema)) (states ?schema)))"
    by (rule classify_states)
  show ?thesis
    unfolding get_samples_def Let_def state_batch_eq[OF assms] prod.case sum.case cl
      country_batch_eq[OF assms] filter_outgroup_eq
    by (simp add: returned_files_def target_files_def background_files_def stratum_runs_def
        materialise_runs_def subprocess_run_def ran_def Let_def)
qed











lemma state_run_in_log:
  assumes "0 < threads self" and "st \<in> set (states (valid_subsampling_schema self))"
  shows "state_run sh self st \<in> set (snd (get_samples sh s1 s2 self runs))"
  using nth_image_completion_order[OF assms(2), of "state_run sh self" s1]
  by (simp add: get_samples_eq[OF assms(1)] stratum_runs_def Let_def)

lemma country_run_in_log:
  assumes "0 < threads self" and "c \<in> set (country_list (valid_subsampling_schema self))"
  shows "country_run sh self c \<in> set (snd (get_samples sh s1 s2 self runs))"
  using nth_image_completion_order[OF assms(2), of "country_run sh self" s2]
  by (simp add: get_samples_eq[OF assms(1)] stratum_runs_def Let_def)






section \<open>The example job\<close>

lemmas demo_defs = demo_job_def demo_schema_def demo_no_countries_def bahia_def

lemma demo_threads: "0 < threads demo_job" "0 < threads demo_no_countries"
  by (simp_all add: demo_defs)


lemma demo_target_files: "target_files demo_job = [''out/job/state_SP_sub.txt'']"
  by (simp add: demo_defs target_files_def state_output_def path_join_def)

lemma demo_background_files:
  "background_files demo_job =
     [''out/job/state_BA_sub.txt'', ''out/job/state_AC_sub.txt'',
      ''out/job/country_AR_sub.txt'', ''out/job/outgroup_sub.txt'']"
  by (simp add: demo_defs background_files_def state_output_def country_output_def
      outgroup_output_def country_list_def path_join_def)


lemma demo_returned_files:
  "returned_files demo_job =
     ''out/job/state_SP_sub.txt out/job/state_BA_sub.txt out/job/state_AC_sub.txt out/job/country_AR_sub.txt out/job/outgroup_sub.txt''"
  by (simp add: returned_files_def demo_target_files demo_background_files)
     (simp add: demo_defs)


section \<open>The include list of the combined materialisation\<close>




section \<open>The exclude list of the background complement\<close>



section \<open>The outgroup filter\<close>



section \<open>The country strata\<close>




section \<open>Failing stratum filters\<close>

text \<open>
  Claim C9 as stated fails. The run for Bahia exits with status 2, it is in the log of
  \<^verbatim>\<open>get_samples\<close> with that status, and \<^verbatim>\<open>get_samples\<close> returns normally, with the
  file of Bahia in the returned list: no failure is surfaced.
\<close>

theorem failed_stratum_not_surfaced:
  "bahia \<in> set (states (valid_subsampling_schema demo_job))
   \<and> bahia_fails (filter_by_state_cmd demo_job bahia (state_output demo_job bahia)) = 2
   \<and> (filter_by_state_cmd demo_job bahia (state_output demo_job bahia), 2)
       \<in> set (snd (get_samples bahia_fails [] [] demo_job []))
   \<and> fst (get_samples bahia_fails [] [] demo_job []) =
       Inr ''out/job/state_SP_sub.txt out/job/state_BA_sub.txt out/job/state_AC_sub.txt out/job/country_AR_sub.txt out/job/outgroup_sub.txt''"
proof -
  have m: "bahia \<in> set (states (valid_subsampling_schema demo_job))"
    by (simp add: demo_defs)
  have f: "bahia_fails (filter_by_state_cmd demo_job bahia (state_output demo_job bahia)) = 2"
    by (simp add: bahia_fails_def filter_by_state_cmd_def Let_def state_output_def path_join_def
        demo_defs)
  have r: "(filter_by_state_cmd demo_job bahia (state_output demo_job bahia), 2)
       \<in> set (snd (get_samples bahia_fails [] [] demo_job []))"
    using state_run_in_log[OF demo_threads(1) m, of bahia_fails "[]" "[]" "[]"]
    by (simp add: state_run_def ran_def f)
  have v: "fst (get_samples bahia_fails [] [] demo_job []) = Inr (returned_files demo_job)"
    by (simp add: get_samples_eq[OF demo_threads(1)])
  from m f r v show ?thesis by (simp add: demo_returned_files)
qed

text \<open>
  Claim C9, amended. For a pool of at least one worker, whatever the exit statuses:
  \<^verbatim>\<open>get_samples\<close> returns normally the same text as with an engine that never
  fails, and the filter of every state and of every country has run, its exit status
  in the log. No list of failed strata is produced.
\<close>

theorem stratum_exit_status_ignored:
  assumes "0 < threads self"
  shows "fst (get_samples sh s1 s2 self runs) = Inr (returned_files self)
     \<and> fst (get_samples sh s1 s2 self runs) = fst (get_samples (\<lambda>c. 0) s1 s2 self runs)
     \<and> (\<forall>st \<in> set (states (valid_subsampling_schema self)).
          (filter_by_state_cmd self st (state_output self st),
           sh (filter_by_state_cmd self st (state_output self st)))
            \<in> set (snd (get_samples sh s1 s2 self runs)))
     \<and> (\<forall>c \<in> set (country_list (valid_subsampling_schema self)).
          (filter_by_country_cmd self c (country_output self c),
           sh (filter_by_country_cmd self c (country_output self c)))
            \<in> set (snd (get_samples sh s1 s2 self runs)))"
proof -
  have a: "fst (get_samples sh s1 s2 self runs) = Inr (returned_files self)"
    by (simp add: get_samples_eq[OF assms])
  have b: "fst (get_samples (\<lambda>c. 0) s1 s2 self runs) = Inr (returned_files self)"
    by (simp add: get_samples_eq[OF assms])
  have c: "\<forall>st \<in> set (states (valid_subsampling_schema self)).
          (filter_by_state_cmd self st (state_output self st),
           sh (filter_by_state_cmd self st (state_output self st)))
            \<in> set (snd (get_samples sh s1 s2 self runs))"
    using state_run_in_log[OF assms, of _ sh s1 s2 runs] by (simp add: state_run_def ran_def)
  have d: "\<forall>c \<in> set (country_list (valid_subsampling_schema self)).
          (filter_by_country_cmd self c (country_output self c),
           sh (filter_by_country_cmd self c (country_output self c)))
            \<in> set (snd (get_samples sh s1 s2 self runs))"
    using country_run_in_log[OF assms, of _ sh s1 s2 runs] by (simp add: country_run_def ran_def)
  from a b c d show ?thesis by simp
qed

text \<open>
  The amended claim C9 on the example job.
\<close>

theorem stratum_exit_status_ignored_witness:
  "0 < threads demo_job
   \<and> bahia_fails (filter_by_state_cmd demo_job bahia (state_output demo_job bahia)) = 2
   \<and> fst (get_samples bahia_fails [2, 0] [] demo_job []) =
       fst (get_samples (\<lambda>c. 0) [2, 0] [] demo_job [])
   \<and> (filter_by_state_cmd demo_job bahia (state_output demo_job bahia), 2)
       \<in> set (snd (get_samples bahia_fails [2, 0] [] demo_job []))"
proof -
  note inst = stratum_exit_status_ignored[OF demo_threads(1), of bahia_fails "[2, 0]" "[]" "[]"]
  have m: "bahia \<in> set (states (valid_subsampling_schema demo_job))"
    by (simp add: demo_defs)
  have f: "bahia_fails (filter_by_state_cmd demo_job bahia (state_output demo_job bahia)) = 2"
    by (simp add: bahia_fails_def filter_by_state_cmd_def Let_def state_output_def path_join_def
        demo_defs)
  have r: "(filter_by_state_cmd demo_job bahia (state_output demo_job bahia),
            bahia_fails (filter_by_state_cmd demo_job bahia (state_output demo_job bahia)))
       \<in> set (snd (get_samples bahia_fails [2, 0] [] demo_job []))"
    by (rule inst[THEN conjunct2, THEN conjunct2, THEN conjunct1, THEN bspec, OF m])
  from inst[THEN conjunct2, THEN conjunct1] r f demo_threads(1) show ?thesis by simp
qed

section \<open>Scheduling\<close>



section \<open>The similarity pipeline never completes\<close>

lemma cline_unbound:
  "resolve_name [''self'', ''output'', ''blast''] ''cline'' = Inl (NameError ''cline'')"
  by (simp add: resolve_name_def module_globals_def builtins_used_def)

lemma dblast_results_dff_unbound:
  "resolve_name [''self'', ''blast_results'', ''blast_columns'', ''blast_results_df'']
     ''dblast_results_dff'' = Inl (NameError ''dblast_results_dff'')"
  by (simp add: resolve_name_def module_globals_def builtins_used_def)

lemma df_unbound:
  "resolve_name [''self'', ''blast_results'', ''blast_columns'', ''blast_results_df'']
     ''df'' = Inl (NameError ''df'')"
  by (simp add: resolve_name_def module_globals_def builtins_used_def)

lemma perform_blast_raises:
  "perform_blast self fs = (Inl (NameError ''cline''), fs)"
  by (simp add: perform_blast_def cline_unbound)

lemma filter_blast_results_raises:
  "filter_blast_results w self =
     (case read_blast_table w (path_join (sg_output_job_dir self) ''gisaid_blastn.tsv'') of
        None \<Rightarrow> Inl (ExternalError ''FileNotFoundError'')
      | Some rows \<Rightarrow> Inl (NameError ''dblast_results_dff''))"
  by (simp add: filter_blast_results_def dblast_results_dff_unbound split: option.splits)

lemma get_gisaid_filtered_genomes_raises:
  "get_gisaid_filtered_genomes w self fs =
     (if makeblastdb_ok w (sg_sequences self)
      then (Inl (NameError ''cline''), fs @ [(sg_sequences self, BlastDatabase)])
      else (Inl (ExternalError ''makeblastdb''), fs))"
  by (simp add: get_gisaid_filtered_genomes_def create_blast_database_def perform_blast_raises)

text \<open>
  The loop of lines 330-332 keeps the records whose identifier is requested, in the
  order of the store; over an open handle the iteration would return them.
\<close>

lemma select_loop_filter:
  "select_loop rs matches selected =
     selected @ filter (\<lambda>r. rec_id r \<in> set matches) rs"
  by (induction rs arbitrary: selected) auto

lemma iterate_open_handle:
  "iterate_records (seqio_parse rs) matches = Inr (filter (\<lambda>r. rec_id r \<in> set matches) rs)"
  by (simp add: iterate_records_def seqio_parse_def select_loop_filter)

lemma select_and_write_raises:
  "select_and_write w self matches fs = (Inl (ValueError ''I/O operation on closed file.''), fs)"
  by (simp add: select_and_write_def iterate_records_def seqio_parse_def Let_def)

text \<open>
  Claim C4. For every input and every behaviour of the external collaborators, the
  similarity stage ends in an exception: \<^verbatim>\<open>perform_blast\<close> raises NameError on
  \<^verbatim>\<open>cline\<close>, \<^verbatim>\<open>filter_blast_results\<close> never returns a list (its names
  \<^verbatim>\<open>dblast_results_dff\<close> and \<^verbatim>\<open>df\<close> are unbound), the constructor of GetSimilarGenomes
  ends in an exception, and the only file it can have written is the alignment
  database: neither matched-genome output exists afterwards.
\<close>

theorem similarity_stage_never_completes:
  "perform_blast self fs = (Inl (NameError ''cline''), fs)
   \<and> (filter_blast_results w self = Inl (NameError ''dblast_results_dff'')
      \<or> filter_blast_results w self = Inl (ExternalError ''FileNotFoundError''))
   \<and> resolve_name [''self'', ''blast_results'', ''blast_columns'', ''blast_results_df'']
        ''df'' = Inl (NameError ''df'')
   \<and> (\<exists>e. fst (GetSimilarGenomes_init w input_file sequences_file metadata_file output_dir n_threads
                  schema_path fs) = Inl e)
   \<and> (snd (GetSimilarGenomes_init w input_file sequences_file metadata_file output_dir n_threads
             schema_path fs) = fs
      \<or> snd (GetSimilarGenomes_init w input_file sequences_file metadata_file output_dir n_threads
               schema_path fs) = fs @ [(sequences_file, BlastDatabase)])"
proof -
  have a: "filter_blast_results w self = Inl (NameError ''dblast_results_dff'')
      \<or> filter_blast_results w self = Inl (ExternalError ''FileNotFoundError'')"
    by (simp add: filter_blast_results_raises split: option.splits)
  have b: "\<exists>e. fst (GetSimilarGenomes_init w input_file sequences_file metadata_file output_dir n_threads
                  schema_path fs) = Inl e"
    by (simp add: GetSimilarGenomes_init_def get_gisaid_filtered_genomes_raises
        split: option.splits)
  have c: "snd (GetSimilarGenomes_init w input_file sequences_file metadata_file output_dir n_threads
             schema_path fs) = fs
      \<or> snd (GetSimilarGenomes_init w input_file sequences_file metadata_file output_dir n_threads
               schema_path fs) = fs @ [(sequences_file, BlastDatabase)]"
    by (simp add: GetSimilarGenomes_init_def get_gisaid_filtered_genomes_raises
        split: option.splits)
  from a b c show ?thesis
    by (simp only: perform_blast_raises df_unbound simp_thms)
qed

text \<open>
  Claim C3 at the hits of the specification's scenario: \<^verbatim>\<open>filter_blast_results\<close>
  reads the hits and raises NameError; it returns no list.
\<close>

theorem ranker_raises_on_scenario_hits:
  "read_blast_table demo_world (path_join (sg_output_job_dir demo_similar_job) ''gisaid_blastn.tsv'')
     = Some scenario_hits
   \<and> filter_blast_results demo_world demo_similar_job = Inl (NameError ''dblast_results_dff'')"
  by (simp add: filter_blast_results_raises demo_world_def)

text \<open>
  Claim C6 at a single hit with full coverage and an identity inside the bounds:
  \<^verbatim>\<open>filter_blast_results\<close> raises NameError and keeps nothing.
\<close>

theorem ranker_keeps_no_hit:
  "filter_blast_results one_hit_world demo_similar_job = Inl (NameError ''dblast_results_dff'')"
  by (simp add: filter_blast_results_raises one_hit_world_def demo_world_def)

text \<open>
  Claim C5 at a store holding the records A and C and a request for A, twice: the
  record-selection step raises ValueError and writes no file, and the method that
  contains it ends at \<^verbatim>\<open>perform_blast\<close>, before the step.
\<close>

theorem record_selection_writes_nothing:
  "select_and_write demo_world demo_similar_job [''A'', ''A''] [] =
     (Inl (ValueError ''I/O operation on closed file.''), [])
   \<and> get_gisaid_filtered_genomes demo_world demo_similar_job [] =
       (Inl (NameError ''cline''), [(''gisaid.fasta'', BlastDatabase)])"
  by (simp add: select_and_write_raises get_gisaid_filtered_genomes_raises demo_world_def
      demo_similar_job_def)

end
